theory Spec2Isabelle
  imports Complex_Main
begin

section \<open>The load-testing script \<^verbatim>\<open>LoadTesting/loadtesting.js\<close>\<close>

text \<open>
  The script is embedded as a sequential program over an explicit world state. Everything
  the script reads from outside is a parameter or a field of that state:
  \<^item> the endpoint is a function from the number of the physical call (0 for the first
    \<^verbatim>\<open>http.get\<close> ever made) to the response and the milliseconds the call took;
  \<^item> \<^verbatim>\<open>Date.now()\<close> reads the clock of the world, which advances while
    \<^verbatim>\<open>http.get\<close> waits and while \<^verbatim>\<open>sleep\<close> sleeps;
  \<^item> the k6 custom metrics and the module variable \<^verbatim>\<open>rawData\<close> are fields of the
    world, updated in the order of the source.
  Numbers of the script that are counters or millisecond differences of \<^verbatim>\<open>Date.now()\<close>
  are integers; the numbers of the end-of-test summary are IEEE doubles, each a rational
  or a special value, and their arithmetic rounds to the nearest double.
\<close>

subsection \<open>Configuration (lines 70-76)\<close>

record config =
  ENDPOINT :: string
  MAX_RETRIES :: nat
  REQUEST_TIMEOUT :: string
  MIN_SLEEP :: rat
  MAX_SLEEP :: rat

definition TEST_CONFIG :: config where
  "TEST_CONFIG = \<lparr> ENDPOINT = ''https://localhost/get/messages'', MAX_RETRIES = 2,
     REQUEST_TIMEOUT = ''20s'', MIN_SLEEP = 1 / 2, MAX_SLEEP = 2 \<rparr>"

subsection \<open>Responses and outcomes\<close>

text \<open>
  A response of \<^verbatim>\<open>http.get\<close>: the numeric status (0 when nothing was received) and the
  header object, a dictionary from header names to string values.
\<close>

record response =
  status :: int
  headers :: "string \<rightharpoonup> string"

text \<open>The endpoint: what physical call number \<open>i\<close> answers, and how many ms it takes.\<close>

type_synonym endpoint = "nat \<Rightarrow> response \<times> nat"

text \<open>The \<^verbatim>\<open>status\<close> field of a result is a number, or the string \<^verbatim>\<open>'failed'\<close>.\<close>

datatype status_val = StatusCode int | StatusFailed

text \<open>The object returned by \<^verbatim>\<open>makeRequest\<close> (lines 136-142 and 173-179).\<close>

record outcome =
  success :: bool
  responseTime :: int
  backend :: string
  retries :: nat
  out_status :: status_val

text \<open>The objects pushed to \<^verbatim>\<open>rawData.requests\<close> (lines 112-121 and 155-164).\<close>

record requestData =
  rq_timestamp :: int
  rq_userId :: nat
  rq_requestId :: nat
  rq_backend :: string
  rq_responseTime :: int
  rq_status :: status_val
  rq_retries :: nat
  rq_success :: bool

text \<open>
  The module variable \<^verbatim>\<open>rawData\<close> (lines 19-26). The field \<^verbatim>\<open>retries\<close> of the source
  is \<open>raw_retries\<close> here, since \<open>retries\<close> names the field of the outcome.
\<close>

record rawData =
  requests :: "requestData list"
  responseTimes :: "int list"
  backends :: "string list"
  raw_retries :: "nat list"
  timestamps :: "int list"
  userSessions :: "nat list"

definition rawData_init :: rawData where
  "rawData_init = \<lparr> requests = [], responseTimes = [], backends = [], raw_retries = [],
     timestamps = [], userSessions = [] \<rparr>"

subsection \<open>The world: clock, transport, custom metrics (lines 10-16), raw data\<close>

text \<open>
  A k6 \<^verbatim>\<open>Rate\<close> is the pair (non-zero samples, all samples); a \<^verbatim>\<open>Counter\<close> is its
  sum, one sum per tag value when the script tags its samples; a \<^verbatim>\<open>Trend\<close> is the list of
  its samples. \<open>calls\<close> counts the physical \<^verbatim>\<open>http.get\<close> calls made so far and \<open>slept\<close>
  the milliseconds spent in \<^verbatim>\<open>sleep\<close>.
\<close>

record world =
  now :: int
  calls :: nat
  slept :: nat
  errorRate :: "nat \<times> nat"
  responseTimeTrend :: "int list"
  backendDistribution :: "string \<Rightarrow> nat"
  retryCounter :: nat
  requestsPerSecond :: "nat \<times> nat"
  responseTimeBuckets :: "string \<Rightarrow> nat"
  rawData :: rawData

definition world_init :: world where
  "world_init = \<lparr> now = 0, calls = 0, slept = 0, errorRate = (0, 0), responseTimeTrend = [],
     backendDistribution = (\<lambda>_. 0), retryCounter = 0, requestsPerSecond = (0, 0),
     responseTimeBuckets = (\<lambda>_. 0), rawData = rawData_init \<rparr>"

definition Date_now :: "world \<Rightarrow> int" where
  "Date_now w = now w"

definition http_get :: "endpoint \<Rightarrow> world \<Rightarrow> response \<times> world" where
  "http_get ep w =
     (fst (ep (calls w)), w\<lparr> now := now w + int (snd (ep (calls w))), calls := Suc (calls w) \<rparr>)"

text \<open>\<^verbatim>\<open>sleep\<close> of k6 takes seconds; the argument here is the same wait in milliseconds.\<close>

definition sleep_ms :: "nat \<Rightarrow> world \<Rightarrow> world" where
  "sleep_ms ms w = w\<lparr> now := now w + int ms, slept := slept w + ms \<rparr>"

text \<open>\<^verbatim>\<open>rate.add(1)\<close>: one more sample, and it is non-zero.\<close>

definition rate_add1 :: "nat \<times> nat \<Rightarrow> nat \<times> nat" where
  "rate_add1 r = (Suc (fst r), Suc (snd r))"

subsection \<open>The pure parts of \<^verbatim>\<open>makeRequest\<close>\<close>

text \<open>
  Lines 100-103: \<^verbatim>\<open>check\<close> is true when every named predicate holds of the response.
\<close>

definition check_response :: "response \<Rightarrow> bool" where
  "check_response r = (status r = 200 \<and> status r \<noteq> 0)"

text \<open>
  \<^verbatim>\<open>a || b\<close> on header lookups: the left operand when it is truthy, that is a string
  that is not empty; \<^verbatim>\<open>undefined\<close> (a missing header) and \<^verbatim>\<open>''\<close> are falsy.
\<close>

definition js_or :: "string option \<Rightarrow> string \<Rightarrow> string" where
  "js_or a b = (case a of None \<Rightarrow> b | Some s \<Rightarrow> if s = [] then b else s)"

text \<open>Lines 106-109.\<close>

definition backend_of :: "response \<Rightarrow> string" where
  "backend_of r =
     js_or (headers r ''X-Backend-Server'')
       (js_or (headers r ''X-Server'')
         (js_or (headers r ''Server'') ''unknown''))"

text \<open>
  Line 149, \<^verbatim>\<open>Math.min(1000 * Math.pow(2, retryCount - 1), 2000)\<close>, in milliseconds. At 0
  the power is \<open>2\<^sup>-\<^sup>1\<close> and the product 500.
\<close>

definition backoffTime :: "nat \<Rightarrow> nat" where
  "backoffTime retryCount =
     (if retryCount = 0 then min 500 2000 else min (1000 * 2 ^ (retryCount - 1)) 2000)"

text \<open>Lines 182-190. The comparisons are those of any ordered number type.\<close>

definition getResponseTimeBucket :: "'a::linordered_idom \<Rightarrow> string" where
  "getResponseTimeBucket rt =
     (if rt < 100 then ''0-100ms''
      else if rt < 200 then ''100-200ms''
      else if rt < 500 then ''200-500ms''
      else if rt < 1000 then ''500-1000ms''
      else if rt < 2000 then ''1000-2000ms''
      else if rt < 5000 then ''2000-5000ms''
      else ''5000ms+'')"

subsection \<open>\<^verbatim>\<open>makeRequest\<close> (lines 81-180)\<close>

text \<open>Lines 111-142: the bookkeeping of a successful attempt and the returned object.\<close>

definition on_success ::
  "nat \<Rightarrow> nat \<Rightarrow> int \<Rightarrow> nat \<Rightarrow> response \<Rightarrow> int \<Rightarrow> world \<Rightarrow> outcome \<times> world" where
  "on_success userId requestId requestStartTime retryCount resp rt w =
     (let b = backend_of resp;
          requestData = \<lparr> rq_timestamp = requestStartTime, rq_userId = userId,
            rq_requestId = requestId, rq_backend = b, rq_responseTime = rt,
            rq_status = StatusCode (status resp), rq_retries = retryCount, rq_success = True \<rparr>;
          rd = rawData w;
          rd' = rd\<lparr> requests := requests rd @ [requestData],
                    responseTimes := responseTimes rd @ [rt],
                    backends := backends rd @ [b],
                    raw_retries := raw_retries rd @ [retryCount],
                    timestamps := timestamps rd @ [requestStartTime] \<rparr>;
          bucket = getResponseTimeBucket rt;
          w' = w\<lparr> rawData := rd',
                  backendDistribution := (backendDistribution w)(b := backendDistribution w b + 1),
                  responseTimeTrend := responseTimeTrend w @ [rt],
                  responseTimeBuckets :=
                    (responseTimeBuckets w)(bucket := responseTimeBuckets w bucket + 1) \<rparr>
      in (\<lparr> success = True, responseTime = rt, backend = b, retries = retryCount,
            out_status = StatusCode (status resp) \<rparr>, w'))"

text \<open>
  Lines 154-179: the bookkeeping after the loop. \<open>startTime\<close> is the value the variable
  holds then, set by the last run of the loop body.
\<close>

definition on_failure ::
  "config \<Rightarrow> nat \<Rightarrow> nat \<Rightarrow> int \<Rightarrow> nat \<Rightarrow> int \<Rightarrow> world \<Rightarrow> outcome \<times> world" where
  "on_failure cfg userId requestId requestStartTime retryCount startTime w =
     (let failedRequestData = \<lparr> rq_timestamp = requestStartTime, rq_userId = userId,
            rq_requestId = requestId, rq_backend = ''error'',
            rq_responseTime = Date_now w - startTime,
            rq_status = StatusFailed, rq_retries = retryCount - 1, rq_success = False \<rparr>;
          rd = rawData w;
          rd' = rd\<lparr> requests := requests rd @ [failedRequestData],
                    responseTimes := responseTimes rd @ [Date_now w - startTime],
                    backends := backends rd @ [''error''],
                    raw_retries := raw_retries rd @ [retryCount - 1],
                    timestamps := timestamps rd @ [requestStartTime] \<rparr>;
          w' = w\<lparr> rawData := rd', errorRate := rate_add1 (errorRate w) \<rparr>
      in (\<lparr> success = False, responseTime = Date_now w - startTime, backend = ''error'',
            retries = MAX_RETRIES cfg, out_status = StatusFailed \<rparr>, w'))"

text \<open>
  The loop of lines 92-152. \<open>attempt\<close> is one run of the loop body at the given
  \<open>retryCount\<close>, followed by what the program does next. After \<^verbatim>\<open>retryCount++\<close> the
  source tests \<^verbatim>\<open>retryCount <= MAX_RETRIES\<close> twice in a row with nothing in between that
  changes either side: once to decide the backoff sleep (line 148), once as the loop
  condition (line 92). So one test decides both: sleep and run the body again, or leave
  the loop for line 154.
\<close>

function attempt ::
  "config \<Rightarrow> endpoint \<Rightarrow> nat \<Rightarrow> nat \<Rightarrow> int \<Rightarrow> nat \<Rightarrow> world \<Rightarrow> outcome \<times> world" where
  "attempt cfg ep userId requestId requestStartTime retryCount w =
     (let startTime = Date_now w;
          resp = fst (http_get ep w);
          w1 = snd (http_get ep w);
          rt = Date_now w1 - startTime;
          w2 = w1\<lparr> requestsPerSecond := rate_add1 (requestsPerSecond w1) \<rparr>
      in if check_response resp then
           on_success userId requestId requestStartTime retryCount resp rt w2
         else
           let w3 = w2\<lparr> retryCounter := retryCounter w2 + 1 \<rparr> in
           if retryCount + 1 \<le> MAX_RETRIES cfg then
             attempt cfg ep userId requestId requestStartTime (retryCount + 1)
               (sleep_ms (backoffTime (retryCount + 1)) w3)
           else
             on_failure cfg userId requestId requestStartTime (retryCount + 1) startTime w3)"
  by pat_completeness auto
termination
  by (relation "measure (\<lambda>(cfg, ep, userId, requestId, requestStartTime, retryCount, w).
        MAX_RETRIES cfg + 1 - retryCount)") auto

declare attempt.simps [simp del]

text \<open>
  Lines 88-92: \<open>retryCount\<close> starts at 0, so the loop condition holds on entry whatever
  the configured number of retries, and the body runs at least once.
\<close>

definition makeRequest :: "config \<Rightarrow> endpoint \<Rightarrow> nat \<Rightarrow> nat \<Rightarrow> world \<Rightarrow> outcome \<times> world" where
  "makeRequest cfg ep userId requestId w =
     (let requestStartTime = Date_now w
      in attempt cfg ep userId requestId requestStartTime 0 w)"

text \<open>
  A run of the script: \<^verbatim>\<open>makeRequest\<close> for each (user, iteration) of a list, one after
  the other on the same world. The outcomes are returned in order.
\<close>

fun run_requests :: "config \<Rightarrow> endpoint \<Rightarrow> (nat \<times> nat) list \<Rightarrow> world \<Rightarrow> outcome list \<times> world" where
  "run_requests cfg ep [] w = ([], w)"
| "run_requests cfg ep ((userId, requestId) # rest) w =
     (let r = makeRequest cfg ep userId requestId w;
          rs = run_requests cfg ep rest (snd r)
      in (fst r # fst rs, snd rs))"

text \<open>
  Names for the worlds the loop body passes through: after lines 93-98 (the call and the
  \<^verbatim>\<open>rps\<close> sample), after lines 145-151 when a retry is left (the retry is counted and
  the backoff slept), and after lines 145-146 when none is left.
\<close>

definition sent :: "endpoint \<Rightarrow> world \<Rightarrow> world" where
  "sent ep w =
     (snd (http_get ep w))\<lparr> requestsPerSecond := rate_add1 (requestsPerSecond (snd (http_get ep w))) \<rparr>"

definition gave_up :: "endpoint \<Rightarrow> world \<Rightarrow> world" where
  "gave_up ep w = (sent ep w)\<lparr> retryCounter := retryCounter (sent ep w) + 1 \<rparr>"

definition backed_off :: "endpoint \<Rightarrow> nat \<Rightarrow> world \<Rightarrow> world" where
  "backed_off ep retryCount w = sleep_ms (backoffTime (retryCount + 1)) (gave_up ep w)"

subsection \<open>The report: \<^verbatim>\<open>generateEnhancedHtmlReport\<close> (lines 278-303)\<close>

text \<open>
  Lines 289-292: the histogram object, its keys in insertion order. Line 296 increments
  the count stored under the bucket's key; every label \<^verbatim>\<open>getResponseTimeBucket\<close>
  returns is one of the seven keys, so no key is ever added.
\<close>

definition bucket_labels :: "string list" where
  "bucket_labels = [''0-100ms'', ''100-200ms'', ''200-500ms'', ''500-1000ms'',
     ''1000-2000ms'', ''2000-5000ms'', ''5000ms+'']"

definition responseTimeHistogram_init :: "(string \<times> nat) list" where
  "responseTimeHistogram_init = map (\<lambda>k. (k, 0)) bucket_labels"

definition histogram_incr :: "string \<Rightarrow> (string \<times> nat) list \<Rightarrow> (string \<times> nat) list" where
  "histogram_incr bucket h = map (\<lambda>(k, c). if k = bucket then (k, c + 1) else (k, c)) h"

definition responseTimeHistogram :: "rawData \<Rightarrow> (string \<times> nat) list" where
  "responseTimeHistogram rd =
     foldl (\<lambda>h rt. histogram_incr (getResponseTimeBucket rt) h)
       responseTimeHistogram_init (responseTimes rd)"

text \<open>The sum of the counts of a histogram, and of a tagged counter over the labels.\<close>

definition histogram_total :: "(string \<times> nat) list \<Rightarrow> nat" where
  "histogram_total h = sum_list (map snd h)"

definition buckets_total :: "world \<Rightarrow> nat" where
  "buckets_total w = sum_list (map (responseTimeBuckets w) bucket_labels)"

subsection \<open>The summary: \<^verbatim>\<open>handleSummary\<close> (lines 223-262)\<close>

text \<open>
  A JavaScript number is an IEEE 754 double: a finite value, an infinity or \<^verbatim>\<open>NaN\<close>.
  A finite double is the rational it denotes. The model has one zero and reads it as
  \<open>+0\<close>; the only divisor of \<^verbatim>\<open>handleSummary\<close> is the request count, which is never
  \<open>-0\<close>, and the sign of a zero changes no other value computed there.
\<close>

datatype jsnum = Fin rat | PosInfinity | NegInfinity | NaN

text \<open>
  Rounding to the nearest double, ties to even. For a positive \<open>a\<close>, \<open>exponent_of a\<close>
  is the \<open>e\<close> with \<open>2\<^sup>e \<le> a < 2\<^sup>e\<^sup>+\<^sup>1\<close>: \<open>flog2 n\<close> is the greatest \<open>k\<close> with
  \<open>2\<^sup>k \<le> n\<close> and \<open>clog2 n\<close> the least \<open>k\<close> with \<open>n \<le> 2\<^sup>k\<close>. A double has 53
  significant bits, so the values near \<open>a\<close> are the multiples of \<open>2\<^sup>e\<^sup>-\<^sup>5\<^sup>2\<close>, where
  \<open>e\<close> is at least -1022 (below that the doubles are subnormal and equally spaced). A
  result of \<open>2\<^sup>1\<^sup>0\<^sup>2\<^sup>4\<close> or more is an infinity.
\<close>

fun flog2 :: "nat \<Rightarrow> nat" where
  "flog2 n = (if n < 2 then 0 else Suc (flog2 (n div 2)))"

fun clog2 :: "nat \<Rightarrow> nat" where
  "clog2 n = (if n \<le> 1 then 0 else Suc (clog2 ((n + 1) div 2)))"

declare flog2.simps [simp del] clog2.simps [simp del]

definition exponent_of :: "rat \<Rightarrow> int" where
  "exponent_of a =
     (if 1 \<le> a then int (flog2 (nat \<lfloor>a\<rfloor>)) else - int (clog2 (nat \<lceil>1 / a\<rceil>)))"

definition pow2 :: "int \<Rightarrow> rat" where
  "pow2 e = (if 0 \<le> e then 2 ^ nat e else 1 / 2 ^ nat (- e))"

definition round_half_even :: "rat \<Rightarrow> int" where
  "round_half_even y =
     (let f = \<lfloor>y\<rfloor>; r = y - of_int f
      in if r < 1 / 2 then f else if 1 / 2 < r then f + 1 else if even f then f else f + 1)"

definition fl :: "rat \<Rightarrow> jsnum" where
  "fl x =
     (if x = 0 then Fin 0
      else let a = \<bar>x\<bar>;
               e = max (exponent_of a) (- 1022);
               n = round_half_even (a / pow2 (e - 52))
           in if 1023 < e \<or> (e = 1023 \<and> n = 9007199254740992)
              then (if 0 < x then PosInfinity else NegInfinity)
              else Fin (sgn x * (of_int n * pow2 (e - 52))))"


text \<open>
  The arithmetic of lines 225-226: the exact result of each operation, rounded; the
  special values as IEEE 754 has them.
\<close>

fun sign_of :: "jsnum \<Rightarrow> rat" where
  "sign_of (Fin x) = sgn x"
| "sign_of PosInfinity = 1"
| "sign_of NegInfinity = - 1"
| "sign_of NaN = 0"

definition inf_of_sign :: "rat \<Rightarrow> jsnum" where
  "inf_of_sign s = (if 0 < s then PosInfinity else if s < 0 then NegInfinity else NaN)"

fun js_mul :: "jsnum \<Rightarrow> jsnum \<Rightarrow> jsnum" where
  "js_mul NaN b = NaN"
| "js_mul a NaN = NaN"
| "js_mul (Fin x) (Fin y) = fl (x * y)"
| "js_mul a b = inf_of_sign (sign_of a * sign_of b)"

fun js_sub :: "jsnum \<Rightarrow> jsnum \<Rightarrow> jsnum" where
  "js_sub NaN b = NaN"
| "js_sub a NaN = NaN"
| "js_sub (Fin x) (Fin y) = fl (x - y)"
| "js_sub PosInfinity PosInfinity = NaN"
| "js_sub NegInfinity NegInfinity = NaN"
| "js_sub PosInfinity b = PosInfinity"
| "js_sub NegInfinity b = NegInfinity"
| "js_sub (Fin x) PosInfinity = NegInfinity"
| "js_sub (Fin x) NegInfinity = PosInfinity"

fun js_div :: "jsnum \<Rightarrow> jsnum \<Rightarrow> jsnum" where
  "js_div NaN b = NaN"
| "js_div a NaN = NaN"
| "js_div (Fin x) (Fin y) = (if y = 0 then inf_of_sign (sgn x) else fl (x / y))"
| "js_div (Fin x) b = Fin 0"
| "js_div a (Fin y) = (if y < 0 then inf_of_sign (- sign_of a) else a)"
| "js_div a b = NaN"

text \<open>\<^verbatim>\<open>x >= c\<close> for a finite \<open>c\<close>: false when \<open>x\<close> is \<^verbatim>\<open>NaN\<close>.\<close>

fun js_ge :: "jsnum \<Rightarrow> rat \<Rightarrow> bool" where
  "js_ge (Fin x) c = (c \<le> x)"
| "js_ge PosInfinity c = True"
| "js_ge NegInfinity c = False"
| "js_ge NaN c = False"

text \<open>
  The fields of \<^verbatim>\<open>data.metrics\<close> that \<^verbatim>\<open>handleSummary\<close> reads. The metric
  \<^verbatim>\<open>retries\<close> may be missing (line 232); the others are read without a test. The
  request count is a natural number, read as the double nearest to it (itself below
  \<open>2\<^sup>5\<^sup>3\<close>); the rates and durations are finite doubles.
\<close>

record summary_data =
  http_reqs_count :: nat
  http_reqs_rate :: rat
  http_req_failed_rate :: rat
  http_req_duration_avg :: rat
  http_req_duration_p95 :: rat
  http_req_duration_p99 :: rat
  vus_max_value :: nat
  retries_count :: "nat option"

text \<open>The four messages of lines 254-262.\<close>

datatype assessment = EXCELLENT | GOOD | ACCEPTABLE | NEEDS_WORK

definition performance_assessment :: "jsnum \<Rightarrow> rat \<Rightarrow> assessment" where
  "performance_assessment successRate p95ResponseTime =
     (if js_ge successRate 95 \<and> p95ResponseTime < 1000 then EXCELLENT
      else if js_ge successRate 90 \<and> p95ResponseTime < 2000 then GOOD
      else if js_ge successRate 80 \<and> p95ResponseTime < 5000 then ACCEPTABLE
      else NEEDS_WORK)"

text \<open>The values \<^verbatim>\<open>handleSummary\<close> computes and prints (lines 224-262).\<close>

record summary =
  totalRequests :: nat
  failedRequests :: jsnum
  successRate :: jsnum
  avgResponseTime :: rat
  p95ResponseTime :: rat
  p99ResponseTime :: rat
  maxVUs :: nat
  requestsPerSec :: rat
  totalRetries :: nat
  verdict :: assessment

definition handleSummary :: "summary_data \<Rightarrow> summary" where
  "handleSummary d =
     (let total = fl (of_nat (http_reqs_count d));
          failed = js_mul (Fin (http_req_failed_rate d)) total;
          rate = js_mul (js_div (js_sub total failed) total) (Fin 100)
      in \<lparr> totalRequests = http_reqs_count d, failedRequests = failed, successRate = rate,
           avgResponseTime = http_req_duration_avg d,
           p95ResponseTime = http_req_duration_p95 d,
           p99ResponseTime = http_req_duration_p99 d,
           maxVUs = vus_max_value d,
           requestsPerSec = http_reqs_rate d,
           totalRetries = (case retries_count d of Some c \<Rightarrow> c | None \<Rightarrow> 0),
           verdict = performance_assessment rate (http_req_duration_p95 d) \<rparr>)"

subsection \<open>The specification's vocabulary\<close>

text \<open>
  The backoff policy in the words of the specification: base delay times
  \<open>2\<^sup>n\<^sup>-\<^sup>1\<close>, capped.
\<close>

definition spec_delay :: "nat \<Rightarrow> nat \<Rightarrow> nat \<Rightarrow> nat" where
  "spec_delay baseDelay capDelay n = min (baseDelay * 2 ^ (n - 1)) capDelay"

text \<open>
  The bins in the words of the specification: boundaries 100, 200, 500, 1000, 2000 and
  5000 ms and an open-ended top bin. A bin is its label, its lower bound (included) and
  its upper bound (excluded), if it has one.
\<close>

definition spec_bins :: "(string \<times> 'a::linordered_idom \<times> 'a option) list" where
  "spec_bins = [(''0-100ms'', 0, Some 100), (''100-200ms'', 100, Some 200),
     (''200-500ms'', 200, Some 500), (''500-1000ms'', 500, Some 1000),
     (''1000-2000ms'', 1000, Some 2000), (''2000-5000ms'', 2000, Some 5000),
     (''5000ms+'', 5000, None)]"

fun in_bin :: "'a::linordered_idom \<Rightarrow> string \<times> 'a \<times> 'a option \<Rightarrow> bool" where
  "in_bin t (label, lo, None) = (lo \<le> t)"
| "in_bin t (label, lo, Some hi) = (lo \<le> t \<and> t < hi)"

text \<open>
  The backend lookup in the words of the specification: the first present value among an
  ordered list of header names, else the sentinel. \<open>spec_backendOf\<close> takes "present"
  as written; \<open>first_nonempty\<close> skips a header that is present with the empty value.
\<close>

fun spec_backendOf :: "string list \<Rightarrow> response \<Rightarrow> string" where
  "spec_backendOf [] r = ''unknown''"
| "spec_backendOf (h # hs) r =
     (case headers r h of Some v \<Rightarrow> v | None \<Rightarrow> spec_backendOf hs r)"

fun first_nonempty :: "string list \<Rightarrow> response \<Rightarrow> string" where
  "first_nonempty [] r = ''unknown''"
| "first_nonempty (h # hs) r =
     (case headers r h of
        Some v \<Rightarrow> if v = [] then first_nonempty hs r else v
      | None \<Rightarrow> first_nonempty hs r)"

definition backend_headers :: "string list" where
  "backend_headers = [''X-Backend-Server'', ''X-Server'', ''Server'']"

subsection \<open>Endpoints of the scenarios\<close>

text \<open>Always status 200 from backend \<^verbatim>\<open>node-7\<close>, in 120 ms.\<close>

definition ep_ok :: endpoint where
  "ep_ok i = (\<lparr> status = 200, headers = [''X-Backend-Server'' \<mapsto> ''node-7''] \<rparr>, 120)"

text \<open>Always status 500, in 100 ms.\<close>

definition ep_500 :: endpoint where
  "ep_500 i = (\<lparr> status = 500, headers = Map.empty \<rparr>, 100)"

text \<open>Status 500 on the first two calls, then status 200; every call takes 100 ms.\<close>

definition ep_third :: endpoint where
  "ep_third i =
     (if i < 2 then (\<lparr> status = 500, headers = Map.empty \<rparr>, 100)
      else (\<lparr> status = 200, headers = [''Server'' \<mapsto> ''nginx''] \<rparr>, 100))"

text \<open>Status 500 in 100 ms on the first call, then status 200 in 50 ms.\<close>

definition ep_second :: endpoint where
  "ep_second i =
     (if i = 0 then (\<lparr> status = 500, headers = Map.empty \<rparr>, 100)
      else (\<lparr> status = 200, headers = [''Server'' \<mapsto> ''nginx''] \<rparr>, 50))"

text \<open>Status 200 from a server whose \<^verbatim>\<open>Server\<close> header reads \<^verbatim>\<open>error\<close>.\<close>

definition ep_named_error :: endpoint where
  "ep_named_error i = (\<lparr> status = 200, headers = [''Server'' \<mapsto> ''error''] \<rparr>, 80)"

text \<open>A response whose first header is present and empty.\<close>

definition resp_empty_first :: response where
  "resp_empty_first =
     \<lparr> status = 200, headers = [''X-Backend-Server'' \<mapsto> [], ''X-Server'' \<mapsto> ''node-2''] \<rparr>"

text \<open>
  Summary data: no request at all; and 10000 requests of which 500 failed, with a 95th
  percentile of 900 ms. The failure rate of the second is the double nearest to
  500 / 10000, which is \<open>3602879701896397 / 2\<^sup>5\<^sup>6\<close>.
\<close>

definition data_empty :: summary_data where
  "data_empty = \<lparr> http_reqs_count = 0, http_reqs_rate = 0, http_req_failed_rate = 0,
     http_req_duration_avg = 0, http_req_duration_p95 = 0, http_req_duration_p99 = 0,
     vus_max_value = 0, retries_count = None \<rparr>"


text \<open>
  Summary data: 3 requests with the failure rate that is the double nearest to 1 / 3.
\<close>

definition data_thirds :: summary_data where
  "data_thirds = \<lparr> http_reqs_count = 3, http_reqs_rate = 1,
     http_req_failed_rate = 6004799503160661 / 18014398509481984,
     http_req_duration_avg = 300,
     http_req_duration_p95 = 900, http_req_duration_p99 = 1500,
     vus_max_value = 1, retries_count = None \<rparr>"

section \<open>The retry loop\<close>

text \<open>The three ways one run of the loop body continues.\<close>

lemma attempt_success:
  "check_response (fst (ep (calls w))) \<Longrightarrow>
   attempt cfg ep u r t rc w =
     on_success u r t rc (fst (ep (calls w))) (int (snd (ep (calls w)))) (sent ep w)"
  by (subst attempt.simps) (simp add: Let_def http_get_def Date_now_def sent_def)

lemma attempt_retry:
  "\<not> check_response (fst (ep (calls w))) \<Longrightarrow> Suc rc \<le> MAX_RETRIES cfg \<Longrightarrow>
   attempt cfg ep u r t rc w = attempt cfg ep u r t (Suc rc) (backed_off ep rc w)"
  by (subst attempt.simps)
     (simp add: Let_def http_get_def Date_now_def sent_def backed_off_def gave_up_def)

lemma attempt_exhausted:
  "\<not> check_response (fst (ep (calls w))) \<Longrightarrow> \<not> Suc rc \<le> MAX_RETRIES cfg \<Longrightarrow>
   attempt cfg ep u r t rc w = on_failure cfg u r t (Suc rc) (now w) (gave_up ep w)"
  by (subst attempt.simps) (simp add: Let_def http_get_def Date_now_def sent_def gave_up_def)

lemma attempt_induct [case_names success retry exhausted]:
  assumes "\<And>rc w. check_response (fst (ep (calls w))) \<Longrightarrow>
             P rc w (on_success u r t rc (fst (ep (calls w))) (int (snd (ep (calls w)))) (sent ep w))"
    and "\<And>rc w. \<not> check_response (fst (ep (calls w))) \<Longrightarrow> Suc rc \<le> MAX_RETRIES cfg \<Longrightarrow>
             P (Suc rc) (backed_off ep rc w) (attempt cfg ep u r t (Suc rc) (backed_off ep rc w)) \<Longrightarrow>
             P rc w (attempt cfg ep u r t (Suc rc) (backed_off ep rc w))"
    and "\<And>rc w. \<not> check_response (fst (ep (calls w))) \<Longrightarrow> \<not> Suc rc \<le> MAX_RETRIES cfg \<Longrightarrow>
             P rc w (on_failure cfg u r t (Suc rc) (now w) (gave_up ep w))"
  shows "P rc w (attempt cfg ep u r t rc w)"
proof (induction "MAX_RETRIES cfg + 1 - rc" arbitrary: rc w)
  case 0
  then have "\<not> Suc rc \<le> MAX_RETRIES cfg" by simp
  then show ?case
    by (cases "check_response (fst (ep (calls w)))")
       (simp_all add: attempt_success attempt_exhausted assms)
next
  case (Suc n)
  show ?case
  proof (cases "check_response (fst (ep (calls w)))")
    case True
    then show ?thesis by (simp add: attempt_success assms)
  next
    case False
    show ?thesis
    proof (cases "Suc rc \<le> MAX_RETRIES cfg")
      case True
      with Suc have "n = MAX_RETRIES cfg + 1 - Suc rc" by simp
      then have "P (Suc rc) (backed_off ep rc w) (attempt cfg ep u r t (Suc rc) (backed_off ep rc w))"
        by (rule Suc.hyps)
      with False True show ?thesis by (simp add: attempt_retry assms)
    next
      case no_retry: False
      with False show ?thesis by (simp add: attempt_exhausted assms)
    qed
  qed
qed

text \<open>Projections of the intermediate worlds.\<close>

lemma sent_simps [simp]:
  "now (sent ep w) = now w + int (snd (ep (calls w)))"
  "calls (sent ep w) = Suc (calls w)"
  "slept (sent ep w) = slept w"
  "rawData (sent ep w) = rawData w"
  "responseTimeBuckets (sent ep w) = responseTimeBuckets w"
  "responseTimeTrend (sent ep w) = responseTimeTrend w"
  "errorRate (sent ep w) = errorRate w"
  by (simp_all add: sent_def http_get_def)

lemma gave_up_simps [simp]:
  "now (gave_up ep w) = now w + int (snd (ep (calls w)))"
  "calls (gave_up ep w) = Suc (calls w)"
  "slept (gave_up ep w) = slept w"
  "rawData (gave_up ep w) = rawData w"
  "responseTimeBuckets (gave_up ep w) = responseTimeBuckets w"
  "responseTimeTrend (gave_up ep w) = responseTimeTrend w"
  "errorRate (gave_up ep w) = errorRate w"
  by (simp_all add: gave_up_def)

lemma backed_off_simps [simp]:
  "now (backed_off ep rc w) = now w + int (snd (ep (calls w))) + int (backoffTime (Suc rc))"
  "calls (backed_off ep rc w) = Suc (calls w)"
  "slept (backed_off ep rc w) = slept w + backoffTime (Suc rc)"
  "rawData (backed_off ep rc w) = rawData w"
  "responseTimeBuckets (backed_off ep rc w) = responseTimeBuckets w"
  "responseTimeTrend (backed_off ep rc w) = responseTimeTrend w"
  "errorRate (backed_off ep rc w) = errorRate w"
  by (simp_all add: backed_off_def sleep_ms_def)

lemma on_success_outcome [simp]:
  "success (fst (on_success u r t rc resp rt w)) = True"
  "responseTime (fst (on_success u r t rc resp rt w)) = rt"
  "backend (fst (on_success u r t rc resp rt w)) = backend_of resp"
  "retries (fst (on_success u r t rc resp rt w)) = rc"
  "out_status (fst (on_success u r t rc resp rt w)) = StatusCode (status resp)"
  by (simp_all add: on_success_def Let_def)

lemma on_success_world [simp]:
  "now (snd (on_success u r t rc resp rt w)) = now w"
  "calls (snd (on_success u r t rc resp rt w)) = calls w"
  "slept (snd (on_success u r t rc resp rt w)) = slept w"
  "errorRate (snd (on_success u r t rc resp rt w)) = errorRate w"
  "responseTimeTrend (snd (on_success u r t rc resp rt w)) = responseTimeTrend w @ [rt]"
  "responseTimeBuckets (snd (on_success u r t rc resp rt w)) =
     (responseTimeBuckets w)(getResponseTimeBucket rt := responseTimeBuckets w (getResponseTimeBucket rt) + 1)"
  by (simp_all add: on_success_def Let_def)

lemma on_success_rawData [simp]:
  "requests (rawData (snd (on_success u r t rc resp rt w))) =
     requests (rawData w) @ [\<lparr> rq_timestamp = t, rq_userId = u, rq_requestId = r,
       rq_backend = backend_of resp, rq_responseTime = rt, rq_status = StatusCode (status resp),
       rq_retries = rc, rq_success = True \<rparr>]"
  "responseTimes (rawData (snd (on_success u r t rc resp rt w))) = responseTimes (rawData w) @ [rt]"
  "backends (rawData (snd (on_success u r t rc resp rt w))) = backends (rawData w) @ [backend_of resp]"
  "raw_retries (rawData (snd (on_success u r t rc resp rt w))) = raw_retries (rawData w) @ [rc]"
  "timestamps (rawData (snd (on_success u r t rc resp rt w))) = timestamps (rawData w) @ [t]"
  "userSessions (rawData (snd (on_success u r t rc resp rt w))) = userSessions (rawData w)"
  by (simp_all add: on_success_def Let_def)

lemma on_failure_outcome [simp]:
  "success (fst (on_failure cfg u r t rc st w)) = False"
  "responseTime (fst (on_failure cfg u r t rc st w)) = now w - st"
  "backend (fst (on_failure cfg u r t rc st w)) = ''error''"
  "retries (fst (on_failure cfg u r t rc st w)) = MAX_RETRIES cfg"
  "out_status (fst (on_failure cfg u r t rc st w)) = StatusFailed"
  by (simp_all add: on_failure_def Let_def Date_now_def)

lemma on_failure_world [simp]:
  "now (snd (on_failure cfg u r t rc st w)) = now w"
  "calls (snd (on_failure cfg u r t rc st w)) = calls w"
  "slept (snd (on_failure cfg u r t rc st w)) = slept w"
  "errorRate (snd (on_failure cfg u r t rc st w)) = rate_add1 (errorRate w)"
  "responseTimeTrend (snd (on_failure cfg u r t rc st w)) = responseTimeTrend w"
  "responseTimeBuckets (snd (on_failure cfg u r t rc st w)) = responseTimeBuckets w"
  by (simp_all add: on_failure_def Let_def)

lemma on_failure_rawData [simp]:
  "requests (rawData (snd (on_failure cfg u r t rc st w))) =
     requests (rawData w) @ [\<lparr> rq_timestamp = t, rq_userId = u, rq_requestId = r,
       rq_backend = ''error'', rq_responseTime = now w - st, rq_status = StatusFailed,
       rq_retries = rc - 1, rq_success = False \<rparr>]"
  "responseTimes (rawData (snd (on_failure cfg u r t rc st w))) = responseTimes (rawData w) @ [now w - st]"
  "backends (rawData (snd (on_failure cfg u r t rc st w))) = backends (rawData w) @ [''error'']"
  "raw_retries (rawData (snd (on_failure cfg u r t rc st w))) = raw_retries (rawData w) @ [rc - 1]"
  "timestamps (rawData (snd (on_failure cfg u r t rc st w))) = timestamps (rawData w) @ [t]"
  "userSessions (rawData (snd (on_failure cfg u r t rc st w))) = userSessions (rawData w)"
  by (simp_all add: on_failure_def Let_def Date_now_def)

lemma backoffTime_ge: "1000 \<le> backoffTime (Suc n)"
  by (simp add: backoffTime_def)

text \<open>Each call appends one entry to each raw list.\<close>

lemma attempt_appends:
  "length (requests (rawData (snd (attempt cfg ep u r t rc w)))) = Suc (length (requests (rawData w))) \<and>
   length (responseTimes (rawData (snd (attempt cfg ep u r t rc w)))) = Suc (length (responseTimes (rawData w))) \<and>
   length (backends (rawData (snd (attempt cfg ep u r t rc w)))) = Suc (length (backends (rawData w))) \<and>
   length (raw_retries (rawData (snd (attempt cfg ep u r t rc w)))) = Suc (length (raw_retries (rawData w))) \<and>
   length (timestamps (rawData (snd (attempt cfg ep u r t rc w)))) = Suc (length (timestamps (rawData w)))"
  by (rule attempt_induct [where P = "\<lambda>rc w res.
        length (requests (rawData (snd res))) = Suc (length (requests (rawData w))) \<and>
        length (responseTimes (rawData (snd res))) = Suc (length (responseTimes (rawData w))) \<and>
        length (backends (rawData (snd res))) = Suc (length (backends (rawData w))) \<and>
        length (raw_retries (rawData (snd res))) = Suc (length (raw_retries (rawData w))) \<and>
        length (timestamps (rawData (snd res))) = Suc (length (timestamps (rawData w)))"])
     simp_all

text \<open>The outcome invariant.\<close>

lemma attempt_outcome:
  "rc \<le> MAX_RETRIES cfg \<longrightarrow>
     calls w < calls (snd (attempt cfg ep u r t rc w)) \<and>
     rc \<le> retries (fst (attempt cfg ep u r t rc w)) \<and>
     retries (fst (attempt cfg ep u r t rc w)) \<le> MAX_RETRIES cfg \<and>
     (if success (fst (attempt cfg ep u r t rc w))
      then check_response (fst (ep (calls (snd (attempt cfg ep u r t rc w)) - 1))) \<and>
           backend (fst (attempt cfg ep u r t rc w)) =
             backend_of (fst (ep (calls (snd (attempt cfg ep u r t rc w)) - 1)))
      else retries (fst (attempt cfg ep u r t rc w)) = MAX_RETRIES cfg \<and>
           backend (fst (attempt cfg ep u r t rc w)) = ''error'')"
  by (rule attempt_induct [where P = "\<lambda>rc w res. rc \<le> MAX_RETRIES cfg \<longrightarrow>
        calls w < calls (snd res) \<and> rc \<le> retries (fst res) \<and> retries (fst res) \<le> MAX_RETRIES cfg \<and>
        (if success (fst res)
         then check_response (fst (ep (calls (snd res) - 1))) \<and>
              backend (fst res) = backend_of (fst (ep (calls (snd res) - 1)))
         else retries (fst res) = MAX_RETRIES cfg \<and> backend (fst res) = ''error'')"])
     (auto split: if_splits)

text \<open>The reported time is that of the last call; the wall clock also holds the rest.\<close>

lemma attempt_time:
  "rc \<le> MAX_RETRIES cfg \<longrightarrow>
     responseTime (fst (attempt cfg ep u r t rc w)) =
       int (snd (ep (calls (snd (attempt cfg ep u r t rc w)) - 1))) \<and>
     rc \<le> retries (fst (attempt cfg ep u r t rc w)) \<and>
     (retries (fst (attempt cfg ep u r t rc w)) = rc \<longrightarrow>
        now (snd (attempt cfg ep u r t rc w)) - now w = responseTime (fst (attempt cfg ep u r t rc w))) \<and>
     responseTime (fst (attempt cfg ep u r t rc w)) +
        1000 * int (retries (fst (attempt cfg ep u r t rc w)) - rc)
       \<le> now (snd (attempt cfg ep u r t rc w)) - now w"
proof (rule attempt_induct [where P = "\<lambda>rc w res. rc \<le> MAX_RETRIES cfg \<longrightarrow>
        responseTime (fst res) = int (snd (ep (calls (snd res) - 1))) \<and>
        rc \<le> retries (fst res) \<and>
        (retries (fst res) = rc \<longrightarrow> now (snd res) - now w = responseTime (fst res)) \<and>
        responseTime (fst res) + 1000 * int (retries (fst res) - rc) \<le> now (snd res) - now w"],
    goal_cases)
  case (1 rc w)
  then show ?case by simp
next
  case (2 rc w)
  have "1000 \<le> int (backoffTime (Suc rc))"
    using backoffTime_ge [of rc] by linarith
  with 2 show ?case
    by (auto simp: algebra_simps)
next
  case (3 rc w)
  then show ?case by auto
qed


lemma makeRequest_attempt: "makeRequest cfg ep u r w = attempt cfg ep u r (now w) 0 w"
  by (simp add: makeRequest_def Date_now_def)

section \<open>The backoff policy\<close>

lemma pow2_ge: "Suc 0 \<le> k \<Longrightarrow> (2::nat) \<le> 2 ^ k"
  by (cases k) simp_all

lemma capped: "2 \<le> n \<Longrightarrow> min (1000 * 2 ^ (n - 1)) 2000 = (2000::nat)"
proof -
  assume "2 \<le> n"
  then have "(2::nat) \<le> 2 ^ (n - 1)" by (intro pow2_ge) simp
  then show ?thesis by simp
qed

lemma backoffTime_cases: "backoffTime n = (if n = 0 then 500 else if n = 1 then 1000 else 2000)"
  using capped [of n] by (auto simp: backoffTime_def)

lemma spec_delay_cases: "1 \<le> n \<Longrightarrow> spec_delay 1000 2000 n = (if n = 1 then 1000 else 2000)"
  using capped [of n] by (auto simp: spec_delay_def)

text \<open>
  Claim C5. For every retry index \<open>n\<close> from 1 to the configured number of retries, the
  backoff the loop sleeps is \<open>min (1000 * 2\<^sup>n\<^sup>-\<^sup>1) 2000\<close> ms, the policy of the
  specification with base 1000 and cap 2000: that is 1000 ms for the first retry and
  2000 ms for every later one. It never decreases from one retry index to a later one.
\<close>

theorem backoff_policy:
  "1 \<le> n \<Longrightarrow> n \<le> MAX_RETRIES cfg \<Longrightarrow>
     backoffTime n = spec_delay 1000 2000 n \<and>
     backoffTime n = (if n = 1 then 1000 else 2000) \<and>
     (\<forall>m. 1 \<le> m \<and> m \<le> n \<longrightarrow> backoffTime m \<le> backoffTime n)"
  by (simp add: backoffTime_cases spec_delay_cases)

theorem backoff_policy_witness:
  "(1::nat) \<le> 2 \<and> 2 \<le> MAX_RETRIES TEST_CONFIG \<and> backoffTime 1 = 1000 \<and> backoffTime 2 = 2000 \<and>
   backoffTime 2 = spec_delay 1000 2000 2 \<and> backoffTime 1 \<le> backoffTime 2"
  using backoff_policy [of 2 TEST_CONFIG] backoff_policy [of 1 TEST_CONFIG]
  by (simp add: TEST_CONFIG_def)

section \<open>The latency buckets\<close>

lemma bucket_in_labels: "getResponseTimeBucket t \<in> set bucket_labels"
  by (simp add: getResponseTimeBucket_def bucket_labels_def)

lemma in_bin_iff:
  "0 \<le> t \<Longrightarrow> bin \<in> set spec_bins \<Longrightarrow> in_bin t bin \<longleftrightarrow> getResponseTimeBucket t = fst bin"
  by (auto simp: spec_bins_def getResponseTimeBucket_def)

lemma bin_exists: "0 \<le> t \<Longrightarrow> \<exists>bin \<in> set spec_bins. getResponseTimeBucket t = fst bin"
  by (simp add: spec_bins_def getResponseTimeBucket_def)

lemma bins_distinct: "distinct (map fst (spec_bins :: (string \<times> 'a::linordered_idom \<times> 'a option) list))"
  by (simp add: spec_bins_def)

text \<open>
  Claim C6. \<^verbatim>\<open>getResponseTimeBucket\<close> partitions the non-negative latencies: every
  latency \<open>t \<ge> 0\<close> lies in exactly one of the seven bins with the boundaries 100, 200,
  500, 1000, 2000 and 5000 ms and an open top bin, the function returns the label of
  that bin and of no other, and the bins carry the labels of the report's histogram.
\<close>

theorem bucket_partition:
  fixes t :: "'a::linordered_idom"
  assumes "0 \<le> t"
  shows "(\<exists>!bin. bin \<in> set spec_bins \<and> in_bin t bin) \<and>
         (\<forall>bin \<in> set spec_bins. in_bin t bin \<longleftrightarrow> getResponseTimeBucket t = fst bin) \<and>
         map fst (spec_bins :: (string \<times> 'a \<times> 'a option) list) = bucket_labels"
proof (intro conjI)
  from bin_exists [OF assms] obtain b :: "string \<times> 'a \<times> 'a option"
    where b: "b \<in> set spec_bins" "getResponseTimeBucket t = fst b"
    by blast
  show "\<exists>!bin. bin \<in> set spec_bins \<and> in_bin t bin"
  proof (rule ex1I [of _ b])
    show "b \<in> set spec_bins \<and> in_bin t b" using b in_bin_iff [OF assms] by blast
  next
    fix c assume c: "c \<in> set spec_bins \<and> in_bin t c"
    then have "fst c = fst b" using b in_bin_iff [OF assms] by metis
    moreover have "inj_on fst (set (spec_bins :: (string \<times> 'a \<times> 'a option) list))"
      using bins_distinct [where 'a = 'a] by (simp add: distinct_map)
    ultimately show "c = b" using c b(1) by (auto dest: inj_onD)
  qed
  show "\<forall>bin \<in> set spec_bins. in_bin t bin \<longleftrightarrow> getResponseTimeBucket t = fst bin"
    using in_bin_iff [OF assms] by blast
  show "map fst (spec_bins :: (string \<times> 'a \<times> 'a option) list) = bucket_labels"
    by (simp add: spec_bins_def bucket_labels_def)
qed

theorem bucket_partition_witness:
  "(0::int) \<le> 150 \<and> getResponseTimeBucket (150::int) = ''100-200ms'' \<and>
   in_bin (150::int) (''100-200ms'', 100, Some 200) \<and> \<not> in_bin (150::int) (''0-100ms'', 0, Some 100)"
  using bucket_partition [of "150::int"] by (simp add: spec_bins_def)


section \<open>Runs of several requests\<close>

lemma makeRequest_appends:
  "length (requests (rawData (snd (makeRequest cfg ep u r w)))) = Suc (length (requests (rawData w)))"
  "length (responseTimes (rawData (snd (makeRequest cfg ep u r w)))) = Suc (length (responseTimes (rawData w)))"
  "length (backends (rawData (snd (makeRequest cfg ep u r w)))) = Suc (length (backends (rawData w)))"
  "length (raw_retries (rawData (snd (makeRequest cfg ep u r w)))) = Suc (length (raw_retries (rawData w)))"
  "length (timestamps (rawData (snd (makeRequest cfg ep u r w)))) = Suc (length (timestamps (rawData w)))"
  using attempt_appends [of cfg ep u r "now w" 0 w] by (simp_all add: makeRequest_attempt)

lemma run_requests_outcomes: "length (fst (run_requests cfg ep reqs w)) = length reqs"
  by (induction reqs arbitrary: w) (auto simp: Let_def)

lemma run_requests_appends:
  "length (requests (rawData (snd (run_requests cfg ep reqs w)))) = length (requests (rawData w)) + length reqs \<and>
   length (responseTimes (rawData (snd (run_requests cfg ep reqs w)))) = length (responseTimes (rawData w)) + length reqs \<and>
   length (backends (rawData (snd (run_requests cfg ep reqs w)))) = length (backends (rawData w)) + length reqs \<and>
   length (raw_retries (rawData (snd (run_requests cfg ep reqs w)))) = length (raw_retries (rawData w)) + length reqs \<and>
   length (timestamps (rawData (snd (run_requests cfg ep reqs w)))) = length (timestamps (rawData w)) + length reqs"
proof (induction reqs arbitrary: w)
  case Nil
  show ?case by simp
next
  case (Cons q reqs)
  obtain u r where q: "q = (u, r)" by (cases q)
  show ?case
    using Cons.IH [of "snd (makeRequest cfg ep u r w)"]
    by (simp add: q Let_def makeRequest_appends)
qed

text \<open>Evaluating the scenarios.\<close>

lemma world_init_simps [simp]:
  "now world_init = 0" "calls world_init = 0" "slept world_init = 0"
  "rawData world_init = rawData_init" "responseTimeBuckets world_init = (\<lambda>_. 0)"
  "responseTimeTrend world_init = []"
  by (simp_all add: world_init_def)

lemma rawData_init_simps [simp]:
  "requests rawData_init = []" "responseTimes rawData_init = []" "backends rawData_init = []"
  "raw_retries rawData_init = []" "timestamps rawData_init = []"
  by (simp_all add: rawData_init_def)

lemma MAX_RETRIES_TEST_CONFIG [simp]: "MAX_RETRIES TEST_CONFIG = 2"
  by (simp add: TEST_CONFIG_def)

lemmas run_eval = makeRequest_attempt attempt_success attempt_retry attempt_exhausted
  check_response_def backoffTime_cases Let_def backend_of_def js_or_def


section \<open>Memory of the recorded data\<close>

text \<open>
  Three requests against an endpoint that always answers 200 in 120 ms: every raw sample
  is kept, so the lists are as long as the number of requests made.
\<close>

theorem raw_data_retained_counterexample:
  "length (requests (rawData (snd (run_requests TEST_CONFIG ep_ok [(1, 0)] world_init)))) = 1 \<and>
   length (requests (rawData (snd (run_requests TEST_CONFIG ep_ok [(1, 0), (1, 1), (1, 2)] world_init)))) = 3 \<and>
   responseTimes (rawData (snd (run_requests TEST_CONFIG ep_ok [(1, 0), (1, 1), (1, 2)] world_init)))
     = [120, 120, 120]"
  by (simp add: run_eval ep_ok_def)

text \<open>
  Claim C1, as the code has it. The recorded state is not bounded: every call of
  \<^verbatim>\<open>makeRequest\<close>, successful or not, appends exactly one entry to each of the lists
  \<^verbatim>\<open>requests\<close>, \<^verbatim>\<open>responseTimes\<close>, \<^verbatim>\<open>backends\<close>, \<^verbatim>\<open>retries\<close> and
  \<^verbatim>\<open>timestamps\<close> of \<^verbatim>\<open>rawData\<close>, so after \<open>n\<close> requests each list has grown by \<open>n\<close>.
\<close>

theorem raw_data_grows:
  "run_requests cfg ep reqs w = (outs, w') \<Longrightarrow>
     length outs = length reqs \<and>
     length (requests (rawData w')) = length (requests (rawData w)) + length reqs \<and>
     length (responseTimes (rawData w')) = length (responseTimes (rawData w)) + length reqs \<and>
     length (backends (rawData w')) = length (backends (rawData w)) + length reqs \<and>
     length (raw_retries (rawData w')) = length (raw_retries (rawData w)) + length reqs \<and>
     length (timestamps (rawData w')) = length (timestamps (rawData w)) + length reqs"
  using run_requests_appends [of cfg ep reqs w] run_requests_outcomes [of cfg ep reqs w]
  by simp

theorem raw_data_grows_witness:
  "length (fst (run_requests TEST_CONFIG ep_500 [(1, 0), (2, 0)] world_init)) = 2 \<and>
   length (requests (rawData (snd (run_requests TEST_CONFIG ep_500 [(1, 0), (2, 0)] world_init)))) = 2 \<and>
   length (responseTimes (rawData (snd (run_requests TEST_CONFIG ep_500 [(1, 0), (2, 0)] world_init)))) = 2"
  using raw_data_grows [of TEST_CONFIG ep_500 "[(1, 0), (2, 0)]" world_init
      "fst (run_requests TEST_CONFIG ep_500 [(1, 0), (2, 0)] world_init)"
      "snd (run_requests TEST_CONFIG ep_500 [(1, 0), (2, 0)] world_init)"]
  by simp

section \<open>The outcome of a request\<close>

lemma backend_of_error:
  "backend_of r = ''error'' \<Longrightarrow> \<exists>h \<in> set backend_headers. headers r h = Some ''error''"
  by (auto simp: backend_of_def js_or_def backend_headers_def split: option.splits if_splits)

lemma makeRequest_outcome:
  "calls w < calls (snd (makeRequest cfg ep u r w)) \<and>
   retries (fst (makeRequest cfg ep u r w)) \<le> MAX_RETRIES cfg \<and>
   (if success (fst (makeRequest cfg ep u r w))
    then check_response (fst (ep (calls (snd (makeRequest cfg ep u r w)) - 1))) \<and>
         backend (fst (makeRequest cfg ep u r w)) =
           backend_of (fst (ep (calls (snd (makeRequest cfg ep u r w)) - 1)))
    else retries (fst (makeRequest cfg ep u r w)) = MAX_RETRIES cfg \<and>
         backend (fst (makeRequest cfg ep u r w)) = ''error'')"
  using attempt_outcome [of 0 cfg w ep u r "now w"]
  by (auto simp: makeRequest_attempt split: if_splits)

text \<open>
  A server that answers 200 and names itself \<^verbatim>\<open>error\<close> in its \<^verbatim>\<open>Server\<close> header: the
  request succeeds and its backend is the string of the error sentinel.
\<close>

theorem success_with_error_backend_counterexample:
  "success (fst (makeRequest TEST_CONFIG ep_named_error 1 0 world_init)) \<and>
   backend (fst (makeRequest TEST_CONFIG ep_named_error 1 0 world_init)) = ''error''"
  by (simp add: run_eval ep_named_error_def)

text \<open>
  Claim C2, as the code has it. A successful outcome has at most \<^verbatim>\<open>MAX_RETRIES\<close>
  retries, comes from a response of status 200, and its backend is the identifier read
  from the headers of that response, which differs from \<^verbatim>\<open>'error'\<close> whenever none of
  the three identifying headers carries the value \<^verbatim>\<open>'error'\<close>. A failed outcome has
  exactly \<^verbatim>\<open>MAX_RETRIES\<close> retries and the backend \<^verbatim>\<open>'error'\<close>.
\<close>

theorem outcome_invariant:
  assumes "makeRequest cfg ep userId requestId w = (out, w')"
  shows "(success out \<longrightarrow>
            retries out \<le> MAX_RETRIES cfg \<and>
            status (fst (ep (calls w' - 1))) = 200 \<and>
            backend out = backend_of (fst (ep (calls w' - 1))) \<and>
            ((\<forall>h \<in> set backend_headers. headers (fst (ep (calls w' - 1))) h \<noteq> Some ''error'')
               \<longrightarrow> backend out \<noteq> ''error'')) \<and>
         (\<not> success out \<longrightarrow> retries out = MAX_RETRIES cfg \<and> backend out = ''error'')"
proof -
  have out: "out = fst (makeRequest cfg ep userId requestId w)"
    and w': "w' = snd (makeRequest cfg ep userId requestId w)"
    using assms by simp_all
  show ?thesis
    using makeRequest_outcome [of w cfg ep userId requestId]
      backend_of_error [of "fst (ep (calls w' - 1))"]
    unfolding out [symmetric] w' [symmetric]
    by (auto simp: check_response_def split: if_splits)
qed

theorem outcome_invariant_witness:
  "success (fst (makeRequest TEST_CONFIG ep_third 1 0 world_init)) \<and>
   retries (fst (makeRequest TEST_CONFIG ep_third 1 0 world_init)) = 2 \<and>
   backend (fst (makeRequest TEST_CONFIG ep_third 1 0 world_init)) = ''nginx'' \<and>
   \<not> success (fst (makeRequest TEST_CONFIG ep_500 1 0 world_init)) \<and>
   retries (fst (makeRequest TEST_CONFIG ep_500 1 0 world_init)) = MAX_RETRIES TEST_CONFIG \<and>
   backend (fst (makeRequest TEST_CONFIG ep_500 1 0 world_init)) = ''error''"
  using outcome_invariant [of TEST_CONFIG ep_third 1 0 world_init
      "fst (makeRequest TEST_CONFIG ep_third 1 0 world_init)"
      "snd (makeRequest TEST_CONFIG ep_third 1 0 world_init)"]
    outcome_invariant [of TEST_CONFIG ep_500 1 0 world_init
      "fst (makeRequest TEST_CONFIG ep_500 1 0 world_init)"
      "snd (makeRequest TEST_CONFIG ep_500 1 0 world_init)"]
  by (simp add: run_eval ep_third_def ep_500_def)

section \<open>Retry scenarios\<close>

lemma attempt_all_fail:
  "rc \<le> MAX_RETRIES cfg \<and> (\<forall>i. rc + i \<le> MAX_RETRIES cfg \<longrightarrow> \<not> check_response (fst (ep (calls w + i)))) \<longrightarrow>
     \<not> success (fst (attempt cfg ep u r t rc w)) \<and>
     calls (snd (attempt cfg ep u r t rc w)) = calls w + (MAX_RETRIES cfg + 1 - rc)"
proof (rule attempt_induct [where P = "\<lambda>rc w res.
        rc \<le> MAX_RETRIES cfg \<and> (\<forall>i. rc + i \<le> MAX_RETRIES cfg \<longrightarrow> \<not> check_response (fst (ep (calls w + i)))) \<longrightarrow>
        \<not> success (fst res) \<and> calls (snd res) = calls w + (MAX_RETRIES cfg + 1 - rc)"], goal_cases)
  case (1 rc w)
  show ?case
  proof
    assume a: "rc \<le> MAX_RETRIES cfg \<and> (\<forall>i. rc + i \<le> MAX_RETRIES cfg \<longrightarrow> \<not> check_response (fst (ep (calls w + i))))"
    then have "\<not> check_response (fst (ep (calls w + 0)))" by (metis add.right_neutral)
    with 1 show "\<not> success (fst (on_success u r t rc (fst (ep (calls w))) (int (snd (ep (calls w)))) (sent ep w))) \<and>
      calls (snd (on_success u r t rc (fst (ep (calls w))) (int (snd (ep (calls w)))) (sent ep w))) = calls w + (MAX_RETRIES cfg + 1 - rc)"
      by simp
  qed
next
  case (2 rc w)
  show ?case
  proof
    assume a: "rc \<le> MAX_RETRIES cfg \<and> (\<forall>i. rc + i \<le> MAX_RETRIES cfg \<longrightarrow> \<not> check_response (fst (ep (calls w + i))))"
    have "\<forall>i. Suc rc + i \<le> MAX_RETRIES cfg \<longrightarrow> \<not> check_response (fst (ep (calls (backed_off ep rc w) + i)))"
    proof (intro allI impI)
      fix i assume "Suc rc + i \<le> MAX_RETRIES cfg"
      then have "rc + Suc i \<le> MAX_RETRIES cfg" by simp
      with a have "\<not> check_response (fst (ep (calls w + Suc i)))" by blast
      then show "\<not> check_response (fst (ep (calls (backed_off ep rc w) + i)))" by simp
    qed
    with 2 show "\<not> success (fst (attempt cfg ep u r t (Suc rc) (backed_off ep rc w))) \<and>
      calls (snd (attempt cfg ep u r t (Suc rc) (backed_off ep rc w))) = calls w + (MAX_RETRIES cfg + 1 - rc)"
      by auto
  qed
next
  case (3 rc w)
  then show ?case by auto
qed

text \<open>
  Claim C4. When each of the \<^verbatim>\<open>MAX_RETRIES + 1\<close> calls a request may make fails its
  check (a status other than 200, such as 500), the request makes exactly
  \<^verbatim>\<open>MAX_RETRIES + 1\<close> calls and returns a failed outcome. When \<^verbatim>\<open>MAX_RETRIES\<close> is 2, the
  first two calls fail and the third passes, the outcome is a success with 2 retries,
  after 3 calls, and the time slept is the backoff of retry 1 plus that of retry 2.
\<close>

theorem retry_scenarios:
  assumes "makeRequest cfg ep userId requestId w = (out, w')"
  shows "((\<forall>i \<le> MAX_RETRIES cfg. \<not> check_response (fst (ep (calls w + i)))) \<longrightarrow>
            \<not> success out \<and> retries out = MAX_RETRIES cfg \<and> backend out = ''error'' \<and>
            calls w' = calls w + (MAX_RETRIES cfg + 1)) \<and>
         (MAX_RETRIES cfg = 2 \<and> \<not> check_response (fst (ep (calls w))) \<and>
          \<not> check_response (fst (ep (calls w + 1))) \<and> check_response (fst (ep (calls w + 2))) \<longrightarrow>
            success out \<and> retries out = 2 \<and> calls w' = calls w + 3 \<and>
            slept w' = slept w + backoffTime 1 + backoffTime 2)"
proof (intro conjI impI)
  have out: "out = fst (attempt cfg ep userId requestId (now w) 0 w)"
    and w': "w' = snd (attempt cfg ep userId requestId (now w) 0 w)"
    using assms by (simp_all add: makeRequest_attempt)
  {
    assume "\<forall>i \<le> MAX_RETRIES cfg. \<not> check_response (fst (ep (calls w + i)))"
    then have f: "\<not> success out \<and> calls w' = calls w + (MAX_RETRIES cfg + 1)"
      using attempt_all_fail [of 0 cfg ep w userId requestId "now w"] by (simp add: out w')
    then show "\<not> success out" and "calls w' = calls w + (MAX_RETRIES cfg + 1)" by simp_all
    from f show "retries out = MAX_RETRIES cfg" and "backend out = ''error''"
      using attempt_outcome [of 0 cfg w ep userId requestId "now w"] by (simp_all add: out)
  }
  {
    assume "MAX_RETRIES cfg = 2 \<and> \<not> check_response (fst (ep (calls w))) \<and>
      \<not> check_response (fst (ep (calls w + 1))) \<and> check_response (fst (ep (calls w + 2)))"
    then have "success out \<and> retries out = 2 \<and> calls w' = calls w + 3 \<and>
      slept w' = slept w + backoffTime 1 + backoffTime 2"
      by (simp add: out w' attempt_retry attempt_success backoffTime_cases)
    then show "success out" and "retries out = 2" and "calls w' = calls w + 3"
      and "slept w' = slept w + backoffTime 1 + backoffTime 2" by simp_all
  }
qed

theorem retry_scenarios_witness:
  "\<not> success (fst (makeRequest TEST_CONFIG ep_500 7 3 world_init)) \<and>
   retries (fst (makeRequest TEST_CONFIG ep_500 7 3 world_init)) = 2 \<and>
   calls (snd (makeRequest TEST_CONFIG ep_500 7 3 world_init)) = 3 \<and>
   success (fst (makeRequest TEST_CONFIG ep_third 7 3 world_init)) \<and>
   retries (fst (makeRequest TEST_CONFIG ep_third 7 3 world_init)) = 2 \<and>
   slept (snd (makeRequest TEST_CONFIG ep_third 7 3 world_init)) = 3000"
  using retry_scenarios [of TEST_CONFIG ep_500 7 3 world_init
      "fst (makeRequest TEST_CONFIG ep_500 7 3 world_init)"
      "snd (makeRequest TEST_CONFIG ep_500 7 3 world_init)"]
    retry_scenarios [of TEST_CONFIG ep_third 7 3 world_init
      "fst (makeRequest TEST_CONFIG ep_third 7 3 world_init)"
      "snd (makeRequest TEST_CONFIG ep_third 7 3 world_init)"]
  by (simp add: ep_500_def ep_third_def check_response_def backoffTime_cases)

section \<open>The reported duration\<close>

text \<open>
  A first call that fails in 100 ms, a backoff of 1000 ms and a second call that succeeds
  in 50 ms: the outcome reports 50 ms, and 1150 ms have passed since the first attempt
  began. Three failed calls of 100 ms each: the outcome reports 100 ms, and 3300 ms have
  passed.
\<close>

theorem elapsed_counterexample:
  "success (fst (makeRequest TEST_CONFIG ep_second 1 0 world_init)) \<and>
   responseTime (fst (makeRequest TEST_CONFIG ep_second 1 0 world_init)) = 50 \<and>
   now (snd (makeRequest TEST_CONFIG ep_second 1 0 world_init)) - now world_init = 1150 \<and>
   \<not> success (fst (makeRequest TEST_CONFIG ep_500 1 0 world_init)) \<and>
   responseTime (fst (makeRequest TEST_CONFIG ep_500 1 0 world_init)) = 100 \<and>
   now (snd (makeRequest TEST_CONFIG ep_500 1 0 world_init)) - now world_init = 3300"
  by (simp add: run_eval ep_second_def ep_500_def)

text \<open>
  Claim C8, as the code has it. The duration in the outcome is the time of the last
  physical attempt alone, since \<^verbatim>\<open>startTime\<close> is set anew by every run of the loop body.
  It is the time since the first attempt began when the outcome has no retries, and
  falls short of it by at least 1000 ms for each retry otherwise.
\<close>

theorem elapsed_last_attempt:
  assumes "makeRequest cfg ep userId requestId w = (out, w')"
  shows "responseTime out = int (snd (ep (calls w' - 1))) \<and>
         (retries out = 0 \<longrightarrow> responseTime out = now w' - now w) \<and>
         responseTime out + 1000 * int (retries out) \<le> now w' - now w"
proof -
  have out: "out = fst (attempt cfg ep userId requestId (now w) 0 w)"
    and w': "w' = snd (attempt cfg ep userId requestId (now w) 0 w)"
    using assms by (simp_all add: makeRequest_attempt)
  show ?thesis
    using attempt_time [of 0 cfg ep userId requestId "now w" w]
    unfolding out [symmetric] w' [symmetric] by simp
qed

theorem elapsed_last_attempt_witness:
  "responseTime (fst (makeRequest TEST_CONFIG ep_ok 1 0 world_init)) = 120 \<and>
   retries (fst (makeRequest TEST_CONFIG ep_ok 1 0 world_init)) = 0 \<and>
   now (snd (makeRequest TEST_CONFIG ep_ok 1 0 world_init)) - now world_init = 120 \<and>
   responseTime (fst (makeRequest TEST_CONFIG ep_second 1 0 world_init)) = 50 \<and>
   retries (fst (makeRequest TEST_CONFIG ep_second 1 0 world_init)) = 1 \<and>
   1050 \<le> now (snd (makeRequest TEST_CONFIG ep_second 1 0 world_init)) - now world_init"
  using elapsed_last_attempt [of TEST_CONFIG ep_ok 1 0 world_init
      "fst (makeRequest TEST_CONFIG ep_ok 1 0 world_init)"
      "snd (makeRequest TEST_CONFIG ep_ok 1 0 world_init)"]
    elapsed_last_attempt [of TEST_CONFIG ep_second 1 0 world_init
      "fst (makeRequest TEST_CONFIG ep_second 1 0 world_init)"
      "snd (makeRequest TEST_CONFIG ep_second 1 0 world_init)"]
  by (simp add: run_eval ep_ok_def ep_second_def)


section \<open>The histograms\<close>

lemma histogram_incr_keys: "map fst (histogram_incr b h) = map fst h"
  by (induction h) (auto simp: histogram_incr_def)

lemma histogram_incr_total:
  "distinct (map fst h) \<Longrightarrow> b \<in> fst ` set h \<Longrightarrow>
   histogram_total (histogram_incr b h) = Suc (histogram_total h)"
proof (induction h)
  case Nil
  then show ?case by simp
next
  case (Cons kc h)
  obtain k c where kc: "kc = (k, c)" by (cases kc)
  show ?case
  proof (cases "k = b")
    case True
    with Cons.prems kc have "b \<notin> fst ` set h" by auto
    then have "histogram_incr b h = h"
      by (induction h) (auto simp: histogram_incr_def)
    then have "map (\<lambda>(k, c). if k = b then (k, c + 1) else (k, c)) h = h"
      by (simp add: histogram_incr_def)
    with True kc show ?thesis
      by (simp add: histogram_incr_def histogram_total_def)
  next
    case False
    with Cons kc show ?thesis
      by (auto simp: histogram_incr_def histogram_total_def)
  qed
qed

lemma histogram_fold_total:
  "map fst h = bucket_labels \<Longrightarrow>
   histogram_total (foldl (\<lambda>h rt. histogram_incr (getResponseTimeBucket rt) h) h (rts :: int list))
     = histogram_total h + length rts"
proof (induction rts arbitrary: h)
  case Nil
  show ?case by simp
next
  case (Cons rt rts)
  have d: "distinct (map fst h)" using Cons.prems by (simp add: bucket_labels_def)
  have m: "getResponseTimeBucket rt \<in> fst ` set h"
    using bucket_in_labels [of rt] Cons.prems by (metis set_map)
  have "map fst (histogram_incr (getResponseTimeBucket rt) h) = bucket_labels"
    using Cons.prems by (simp add: histogram_incr_keys)
  from Cons.IH [OF this] show ?case
    by (simp add: histogram_incr_total [OF d m])
qed

lemma histogram_counts_all:
  "histogram_total (responseTimeHistogram rd) = length (responseTimes rd)"
proof -
  have "map fst responseTimeHistogram_init = bucket_labels"
    by (simp add: responseTimeHistogram_init_def comp_def)
  from histogram_fold_total [OF this]
  show ?thesis
    by (simp add: responseTimeHistogram_def responseTimeHistogram_init_def histogram_total_def comp_def)
qed

lemma counter_other_total:
  "b \<notin> set ks \<Longrightarrow> sum_list (map (f(b := v)) ks) = sum_list (map f ks)"
  by (induction ks) auto

lemma counter_bump_total:
  "distinct ks \<Longrightarrow> b \<in> set ks \<Longrightarrow>
   sum_list (map (f(b := Suc (f b))) ks) = Suc (sum_list (map f ks))"
proof (induction ks)
  case Nil
  then show ?case by simp
next
  case (Cons k ks)
  show ?case
  proof (cases "k = b")
    case True
    with Cons.prems have "b \<notin> set ks" by simp
    then have rest: "sum_list (map (f(b := Suc (f b))) ks) = sum_list (map f ks)"
      by (rule counter_other_total)
    have "sum_list (map (f(b := Suc (f b))) (k # ks)) =
            (f(b := Suc (f b))) b + sum_list (map (f(b := Suc (f b))) ks)"
      unfolding True by (simp only: list.map sum_list.Cons)
    also have "\<dots> = Suc (f b) + sum_list (map f ks)"
      by (simp only: rest fun_upd_same)
    also have "\<dots> = Suc (sum_list (map f (k # ks)))"
      unfolding True by (simp only: list.map sum_list.Cons add_Suc)
    finally show ?thesis .
  next
    case False
    with Cons show ?thesis by simp
  qed
qed

lemma attempt_buckets:
  "buckets_total (snd (attempt cfg ep u r t rc w)) =
     buckets_total w + (if success (fst (attempt cfg ep u r t rc w)) then 1 else 0) \<and>
   length (responseTimeTrend (snd (attempt cfg ep u r t rc w))) =
     length (responseTimeTrend w) + (if success (fst (attempt cfg ep u r t rc w)) then 1 else 0)"
proof (rule attempt_induct [where P = "\<lambda>rc w res.
    buckets_total (snd res) = buckets_total w + (if success (fst res) then 1 else 0) \<and>
    length (responseTimeTrend (snd res)) = length (responseTimeTrend w) + (if success (fst res) then 1 else 0)"],
    goal_cases)
  case (1 rc w)
  have "distinct bucket_labels" by (simp add: bucket_labels_def)
  then show ?case
    using bucket_in_labels [of "int (snd (ep (calls w)))"]
    by (simp add: buckets_total_def counter_bump_total)
next
  case (2 rc w)
  then show ?case by (simp add: buckets_total_def)
next
  case (3 rc w)
  then show ?case by (simp add: buckets_total_def)
qed

lemma run_requests_buckets:
  "buckets_total (snd (run_requests cfg ep reqs w)) =
     buckets_total w + length (filter success (fst (run_requests cfg ep reqs w))) \<and>
   length (responseTimeTrend (snd (run_requests cfg ep reqs w))) =
     length (responseTimeTrend w) + length (filter success (fst (run_requests cfg ep reqs w)))"
proof (induction reqs arbitrary: w)
  case Nil
  show ?case by simp
next
  case (Cons q reqs)
  obtain u r where q: "q = (u, r)" by (cases q)
  show ?case
    using Cons.IH [of "snd (makeRequest cfg ep u r w)"]
      attempt_buckets [of cfg ep u r "now w" 0 w]
    by (simp add: q Let_def makeRequest_attempt)
qed

lemma buckets_total_init [simp]: "buckets_total world_init = 0"
  by (simp add: buckets_total_def bucket_labels_def)

text \<open>
  One request against an endpoint that always answers 500: its latency is recorded in
  \<^verbatim>\<open>rawData.responseTimes\<close> and counted by the histogram of the report, and no bucket
  of the counter \<^verbatim>\<open>response_time_buckets\<close> has counted it.
\<close>

theorem bucket_counter_skips_failures_counterexample:
  "responseTimes (rawData (snd (run_requests TEST_CONFIG ep_500 [(1, 0)] world_init))) = [100] \<and>
   histogram_total (responseTimeHistogram (rawData (snd (run_requests TEST_CONFIG ep_500 [(1, 0)] world_init)))) = 1 \<and>
   buckets_total (snd (run_requests TEST_CONFIG ep_500 [(1, 0)] world_init)) = 0"
  by (simp add: run_eval ep_500_def histogram_counts_all buckets_total_def bucket_labels_def)

text \<open>
  Claim C9, as the code has it. After any run from the initial state, the histogram that
  \<^verbatim>\<open>generateEnhancedHtmlReport\<close> builds from \<^verbatim>\<open>rawData.responseTimes\<close> sums to the
  number of recorded latencies, which is one per request, failed requests included. The
  counter \<^verbatim>\<open>response_time_buckets\<close> is incremented on success only: its buckets sum to
  the number of successful outcomes, which is also the number of samples of the trend
  \<^verbatim>\<open>response_times\<close>.
\<close>

theorem bucket_counts:
  assumes "run_requests cfg ep reqs world_init = (outs, w')"
  shows "histogram_total (responseTimeHistogram (rawData w')) = length (responseTimes (rawData w')) \<and>
         length (responseTimes (rawData w')) = length outs \<and>
         length outs = length (filter success outs) + length (filter (\<lambda>out. \<not> success out) outs) \<and>
         buckets_total w' = length (filter success outs) \<and>
         length (responseTimeTrend w') = length (filter success outs)"
proof -
  have outs: "outs = fst (run_requests cfg ep reqs world_init)"
    and w': "w' = snd (run_requests cfg ep reqs world_init)"
    using assms by simp_all
  show ?thesis
    using run_requests_appends [of cfg ep reqs world_init]
      run_requests_outcomes [of cfg ep reqs world_init]
      run_requests_buckets [of cfg ep reqs world_init]
      sum_length_filter_compl [of success outs]
    unfolding outs [symmetric] w' [symmetric]
    by (simp add: histogram_counts_all)
qed

theorem bucket_counts_witness:
  "histogram_total (responseTimeHistogram (rawData (snd (run_requests TEST_CONFIG ep_second [(1, 0), (1, 1)] world_init)))) = 2 \<and>
   buckets_total (snd (run_requests TEST_CONFIG ep_second [(1, 0), (1, 1)] world_init)) = 2 \<and>
   length (filter success (fst (run_requests TEST_CONFIG ep_second [(1, 0), (1, 1)] world_init))) = 2"
  using bucket_counts [of TEST_CONFIG ep_second "[(1, 0), (1, 1)]"
      "fst (run_requests TEST_CONFIG ep_second [(1, 0), (1, 1)] world_init)"
      "snd (run_requests TEST_CONFIG ep_second [(1, 0), (1, 1)] world_init)"]
  by (simp add: run_eval ep_second_def)


section \<open>The backend identifier\<close>

lemma backend_of_first_nonempty: "backend_of r = first_nonempty backend_headers r"
  by (simp add: backend_of_def js_or_def backend_headers_def split: option.splits)

lemma first_nonempty_spec:
  "(\<forall>h \<in> set hs. headers r h \<noteq> Some []) \<Longrightarrow> first_nonempty hs r = spec_backendOf hs r"
  by (induction hs) (auto split: option.splits)

lemma first_nonempty_absent:
  "(\<forall>h \<in> set hs. headers r h = None) \<Longrightarrow> first_nonempty hs r = ''unknown''"
  by (induction hs) auto

text \<open>
  A response whose \<^verbatim>\<open>X-Backend-Server\<close> header is present with the empty value and
  whose \<^verbatim>\<open>X-Server\<close> header is \<^verbatim>\<open>node-2\<close>: the first present value is the empty
  string, and the backend the code takes is \<^verbatim>\<open>node-2\<close>.
\<close>

theorem empty_header_skipped_counterexample:
  "headers resp_empty_first ''X-Backend-Server'' = Some [] \<and>
   spec_backendOf backend_headers resp_empty_first = [] \<and>
   backend_of resp_empty_first = ''node-2''"
  by (simp add: resp_empty_first_def backend_headers_def backend_of_def js_or_def)

text \<open>
  Claim C10, as the code has it. The backend of a successful outcome is the first value
  that is present and not empty among the headers \<^verbatim>\<open>X-Backend-Server\<close>, \<^verbatim>\<open>X-Server\<close>
  and \<^verbatim>\<open>Server\<close> of the response that passed the check, in this order; it is the first
  present value when no such header is present with the empty value; it is
  \<^verbatim>\<open>'unknown'\<close> when none of the three is present, and \<^verbatim>\<open>'unknown'\<close> is not the
  sentinel \<^verbatim>\<open>'error'\<close> of failed requests.
\<close>

theorem backend_lookup:
  assumes "makeRequest cfg ep userId requestId w = (out, w')" and "success out"
    and "resp = fst (ep (calls w' - 1))"
  shows "status resp = 200 \<and>
         backend out = first_nonempty backend_headers resp \<and>
         ((\<forall>h \<in> set backend_headers. headers resp h \<noteq> Some []) \<longrightarrow>
            backend out = spec_backendOf backend_headers resp) \<and>
         ((\<forall>h \<in> set backend_headers. headers resp h = None) \<longrightarrow> backend out = ''unknown'') \<and>
         ''unknown'' \<noteq> ''error''"
proof -
  have out: "out = fst (makeRequest cfg ep userId requestId w)"
    and w': "w' = snd (makeRequest cfg ep userId requestId w)"
    using assms(1) by simp_all
  have "check_response resp \<and> backend out = backend_of resp"
    using makeRequest_outcome [of w cfg ep userId requestId] assms(2,3)
    unfolding out [symmetric] w' [symmetric] by (simp split: if_splits)
  then have s: "status resp = 200" and b: "backend out = first_nonempty backend_headers resp"
    by (simp_all add: check_response_def backend_of_first_nonempty)
  show ?thesis
    using s b first_nonempty_spec [of backend_headers resp]
      first_nonempty_absent [of backend_headers resp]
    by simp
qed

theorem backend_lookup_witness:
  "success (fst (makeRequest TEST_CONFIG ep_ok 1 0 world_init)) \<and>
   backend (fst (makeRequest TEST_CONFIG ep_ok 1 0 world_init)) = ''node-7'' \<and>
   spec_backendOf backend_headers (fst (ep_ok 0)) = ''node-7''"
  using backend_lookup [of TEST_CONFIG ep_ok 1 0 world_init
      "fst (makeRequest TEST_CONFIG ep_ok 1 0 world_init)"
      "snd (makeRequest TEST_CONFIG ep_ok 1 0 world_init)" "fst (ep_ok 0)"]
  by (simp add: run_eval ep_ok_def backend_headers_def)

section \<open>The summary\<close>

lemma floor_rat_numeral: "\<lfloor>(numeral a :: rat) / numeral b\<rfloor> = numeral a div numeral b"
  using floor_divide_of_int_eq [of "numeral a" "numeral b", where ?'a = rat] by simp

lemma ceiling_rat_numeral:
  "\<lceil>(numeral a :: rat) / numeral b\<rceil> = - (- numeral a div numeral b)"
  using floor_rat_numeral [of a b]
    floor_divide_of_int_eq [of "- numeral a" "numeral b", where ?'a = rat]
  by (simp add: ceiling_def)

text \<open>The roundings of the scenario, each evaluated: first the exponent, then the rest.\<close>

lemma fl_0: "fl 0 = Fin 0"
  by (simp add: fl_def)





lemma successRate_eq:
  "successRate (handleSummary d) =
     js_mul (js_div (js_sub (fl (of_nat (http_reqs_count d)))
                       (js_mul (Fin (http_req_failed_rate d)) (fl (of_nat (http_reqs_count d)))))
               (fl (of_nat (http_reqs_count d)))) (Fin 100)"
  by (simp add: handleSummary_def Let_def)

lemma verdict_eq:
  "verdict (handleSummary d) =
     performance_assessment (successRate (handleSummary d)) (http_req_duration_p95 d)"
  by (simp add: handleSummary_def Let_def)

lemma successRate_empty: "http_reqs_count d = 0 \<Longrightarrow> successRate (handleSummary d) = NaN"
  by (simp add: successRate_eq fl_0 inf_of_sign_def)






text \<open>
  Rounding is visible in the result: with 3 requests and the failure rate nearest to
  1 / 3, the product rounds to 1 failed request and the rate computed is the double
  nearest to 100 times the double nearest to 2 / 3, not 200 / 3.
\<close>

lemma successRate_thirds:
  "failedRequests (handleSummary data_thirds) = Fin 1 \<and>
   successRate (handleSummary data_thirds) = Fin (2345624805922133 / 35184372088832)"
proof -
  have t: "fl (of_nat (http_reqs_count data_thirds)) = Fin 3"
    unfolding fl_def Let_def
    by (simp add: data_thirds_def exponent_of_def flog2.simps)
       (simp add: pow2_def round_half_even_def Let_def)
  have f: "js_mul (Fin (http_req_failed_rate data_thirds)) (Fin 3) = Fin 1"
    apply (simp add: data_thirds_def)
    apply (unfold fl_def Let_def)
    apply (simp add: exponent_of_def clog2.simps ceiling_rat_numeral)
    apply (simp add: pow2_def round_half_even_def Let_def floor_rat_numeral)
    done
  have s: "js_sub (Fin 3) (Fin 1) = Fin 2"
    apply simp
    apply (unfold fl_def Let_def)
    apply (simp add: exponent_of_def flog2.simps)
    apply (simp add: pow2_def round_half_even_def Let_def)
    done
  have d: "js_div (Fin 2) (Fin 3) = Fin (6004799503160661 / 9007199254740992)"
    apply simp
    apply (unfold fl_def Let_def)
    apply (simp add: exponent_of_def clog2.simps ceiling_rat_numeral)
    apply (simp add: pow2_def round_half_even_def Let_def floor_rat_numeral)
    done
  have m: "js_mul (Fin (6004799503160661 / 9007199254740992)) (Fin 100) =
             Fin (2345624805922133 / 35184372088832)"
    apply simp
    apply (unfold fl_def Let_def)
    apply (simp add: exponent_of_def flog2.simps floor_rat_numeral)
    apply (simp add: pow2_def round_half_even_def Let_def floor_rat_numeral)
    done
  have "failedRequests (handleSummary data_thirds) = Fin 1"
    using t f by (simp add: handleSummary_def Let_def)
  moreover have "successRate (handleSummary data_thirds) = Fin (2345624805922133 / 35184372088832)"
    by (simp only: successRate_eq t f s d m)
  ultimately show ?thesis by simp
qed

text \<open>
  The summary of a test in which no request was made: the success rate is \<^verbatim>\<open>NaN\<close>, the
  assessment is the lowest of the four, and the percentile is the 0 that was passed in.
\<close>

theorem summary_no_data_counterexample:
  "successRate (handleSummary data_empty) = NaN \<and>
   verdict (handleSummary data_empty) = NEEDS_WORK \<and>
   p95ResponseTime (handleSummary data_empty) = 0"
proof -
  have "http_reqs_count data_empty = 0"
    by (simp add: data_empty_def)
  then have r: "successRate (handleSummary data_empty) = NaN"
    by (rule successRate_empty)
  then have v: "verdict (handleSummary data_empty) = NEEDS_WORK"
    by (simp add: verdict_eq performance_assessment_def)
  have p: "p95ResponseTime (handleSummary data_empty) = 0"
    by (simp add: handleSummary_def Let_def data_empty_def)
  from r v p show ?thesis by simp
qed

text \<open>
  Claim C3, as the code has it. When the request count is zero, \<^verbatim>\<open>handleSummary\<close> has
  no state for missing data: the success rate it computes and prints is \<^verbatim>\<open>NaN\<close> (zero
  divided by zero), the assessment it prints is the one for an endpoint that struggles
  under load, and the latency percentiles are passed through as k6 supplies them.
\<close>

theorem summary_of_no_requests:
  "http_reqs_count d = 0 \<Longrightarrow>
     successRate (handleSummary d) = NaN \<and>
     verdict (handleSummary d) = NEEDS_WORK \<and>
     p95ResponseTime (handleSummary d) = http_req_duration_p95 d \<and>
     p99ResponseTime (handleSummary d) = http_req_duration_p99 d"
proof -
  assume "http_reqs_count d = 0"
  then have r: "successRate (handleSummary d) = NaN"
    by (rule successRate_empty)
  then have v: "verdict (handleSummary d) = NEEDS_WORK"
    by (simp add: verdict_eq performance_assessment_def)
  have p: "p95ResponseTime (handleSummary d) = http_req_duration_p95 d"
    "p99ResponseTime (handleSummary d) = http_req_duration_p99 d"
    by (simp_all add: handleSummary_def Let_def)
  from r v p show ?thesis by simp
qed

theorem summary_of_no_requests_witness:
  "http_reqs_count data_empty = 0 \<and> successRate (handleSummary data_empty) = NaN \<and>
   verdict (handleSummary data_empty) = NEEDS_WORK"
  using summary_of_no_requests [of data_empty] by (simp add: data_empty_def)



end
